theory Spec2Isabelle
  imports Main "HOL-Library.Word"
begin

section \<open>Exceptions\<close>

text \<open>
  What a function of \<open>helpers.js\<close> can end with instead of a value: the \<open>TypeError\<close>
  that the language raises on a property read or a method call on \<open>undefined\<close> or
  \<open>null\<close>, and whatever the host renderer throws, told apart by a number.
\<close>

datatype exn = TypeError | HostError nat

section \<open>Colour strings: \<open>webToHex\<close> and \<open>hexToWeb\<close>\<close>

text \<open>
  JavaScript's \<open>String.prototype.replace\<close> with a string pattern replaces the first
  occurrence of the pattern, scanning from the left, and returns the string unchanged
  when the pattern does not occur. The replacement strings used in \<open>helpers.js\<close>
  (\<open>0x\<close> and \<open>#\<close>) contain no \<open>$\<close>, so no replacement pattern is expanded.
  A string is the list of its code units.
\<close>

fun js_replace :: "string \<Rightarrow> string \<Rightarrow> string \<Rightarrow> string" where
  "js_replace pat rep [] = (if pat = [] then rep else [])"
| "js_replace pat rep (c # cs) =
     (if take (length pat) (c # cs) = pat then rep @ drop (length pat) (c # cs)
      else c # js_replace pat rep cs)"

text \<open>\<open>String.prototype.includes\<close>: does the pattern occur somewhere in the string?\<close>

fun js_includes :: "string \<Rightarrow> string \<Rightarrow> bool" where
  "js_includes [] pat = (pat = [])"
| "js_includes (c # cs) pat = (take (length pat) (c # cs) = pat \<or> js_includes cs pat)"

text \<open>\<^verbatim>\<open>export function webToHex(n) { return n.replace('#', '0x'); }\<close>\<close>

definition webToHex :: "string \<Rightarrow> string" where
  "webToHex n = js_replace ''#'' ''0x'' n"

text \<open>
  \<^verbatim>\<open>export function hexToWeb(n) { return (`${n}`).replace('0x', '#'); }\<close>

  The template literal converts its argument to a string; on a string it is the identity.
\<close>

definition hexToWeb :: "string \<Rightarrow> string" where
  "hexToWeb n = js_replace ''0x'' ''#'' n"

section \<open>Polygon points: \<open>hexObjsToArr\<close>\<close>

text \<open>
  A point is an object with the properties \<open>x\<close> and \<open>y\<close>. The function pushes the two
  coordinates of every point, in order, and then those of \<open>hex[0]\<close>. On an empty array
  \<open>hex[0]\<close> is \<open>undefined\<close> and reading its property \<open>x\<close> throws a \<open>TypeError\<close>.
\<close>

record 'a point =
  point_x :: 'a
  point_y :: 'a

definition push_point :: "'a point \<Rightarrow> 'a list \<Rightarrow> 'a list" where
  "push_point p a = (a @ [point_x p]) @ [point_y p]"

definition hexObjsToArr :: "'a point list \<Rightarrow> exn + 'a list" where
  "hexObjsToArr hex =
     (let a = fold push_point hex []
      in case hex of
           [] \<Rightarrow> Inl TypeError
         | p0 # _ \<Rightarrow> Inr ((a @ [point_x p0]) @ [point_y p0]))"

section \<open>Pixel readback: \<open>readPixel\<close>\<close>

subsection \<open>Numbers\<close>

text \<open>
  A JavaScript number is an IEEE 754 double: \<open>NaN\<close>, an infinity with its sign, or a
  finite value. \<open>Finite s m e\<close> stands for the value \<open>m * 2 ^ e\<close>, negative when \<open>s\<close> is
  true; zero has a sign too. The doubles are the values with \<open>m < 2 ^ 53\<close>,
  \<open>- 1074 \<le> e\<close> and \<open>m * 2 ^ e < 2 ^ 1024\<close>. A value may have several such
  representations; \<open>js_times\<close> gives one of them.
\<close>

datatype jsnum = NaN | Infinity bool | Finite bool nat int

text \<open>The number of binary digits of \<open>n\<close>.\<close>

fun bit_length :: "nat \<Rightarrow> nat" where
  "bit_length n = (if n = 0 then 0 else Suc (bit_length (n div 2)))"

declare bit_length.simps [simp del]

text \<open>
  The double nearest to \<open>m * 2 ^ e\<close>, ties going to the even significand: the last \<open>k\<close>
  binary digits of \<open>m\<close> are dropped, where \<open>k\<close> is what leaves 53 digits, or more where
  the result is subnormal (the smallest step is \<open>2 ^ - 1074\<close>); a result of \<open>2 ^ 1024\<close>
  or more is infinite.
\<close>

definition round_to_double :: "bool \<Rightarrow> nat \<Rightarrow> int \<Rightarrow> jsnum" where
  "round_to_double s m e =
     (let k = max (int (bit_length m) - 53) (- 1074 - e);
          d = 2 ^ nat k;
          q = (if k \<le> 0 then m
               else if m mod d > d div 2 \<or> (m mod d = d div 2 \<and> odd (m div d))
                    then m div d + 1 else m div d);
          e' = (if k \<le> 0 then e else e + k)
      in if int (bit_length q) + e' > 1024 then Infinity s else Finite s q e')"

text \<open>The operator \<open>*\<close>: the exact product, rounded.\<close>

fun js_times :: "jsnum \<Rightarrow> jsnum \<Rightarrow> jsnum" where
  "js_times (Finite s1 m1 e1) (Finite s2 m2 e2) =
     round_to_double (s1 \<noteq> s2) (m1 * m2) (e1 + e2)"
| "js_times (Infinity s1) (Infinity s2) = Infinity (s1 \<noteq> s2)"
| "js_times (Infinity s1) (Finite s2 m e) = (if m = 0 then NaN else Infinity (s1 \<noteq> s2))"
| "js_times (Finite s1 m e) (Infinity s2) = (if m = 0 then NaN else Infinity (s1 \<noteq> s2))"
| "js_times NaN _ = NaN"
| "js_times _ NaN = NaN"

text \<open>The integer \<open>n\<close> as a number; a double when \<open>\<bar>n\<bar> \<le> 2 ^ 53\<close>.\<close>

definition js_int :: "int \<Rightarrow> jsnum" where
  "js_int n = Finite (n < 0) (nat \<bar>n\<bar>) 0"

text \<open>A variable declared by \<open>let\<close> and never assigned is \<open>undefined\<close> (\<open>None\<close>);
  as an operand of \<open>*\<close> it converts to \<open>NaN\<close>.\<close>

definition to_number :: "jsnum option \<Rightarrow> jsnum" where
  "to_number v = (case v of None \<Rightarrow> NaN | Some n \<Rightarrow> n)"

text \<open>A parameter with the default \<open>= 0\<close>: an omitted argument (\<open>None\<close>) is 0.\<close>

definition default_zero :: "jsnum option \<Rightarrow> jsnum" where
  "default_zero v = (case v of None \<Rightarrow> js_int 0 | Some n \<Rightarrow> n)"

type_synonym byte = "8 word"

type_synonym pixel = "byte list"

text \<open>
  A texture object: an identity, its size in logical pixels, and its \<open>baseTexture\<close>
  property, which is \<open>null\<close> (\<open>None\<close>) on a destroyed texture and otherwise carries the
  \<open>resolution\<close>. \<open>readPixel\<close> never reads the size.
\<close>

record base_texture =
  resolution :: jsnum

record texture =
  tex_id :: nat
  width :: int
  height :: int
  baseTexture :: "base_texture option"

text \<open>\<open>target instanceof PIXI.RenderTexture\<close> holds for \<open>RenderTexture t\<close> only.\<close>

datatype target = RenderTexture texture | Other nat

datatype gl_enum = RGBA | RGB | UNSIGNED_BYTE | FLOAT

datatype call =
    is_GenerateTexture: GenerateTexture target
  | is_Bind: Bind texture
  | is_ReadPixels: ReadPixels jsnum jsnum int int gl_enum gl_enum pixel
  | is_Destroy: Destroy texture bool

datatype outcome = Threw exn | Returned | Gave "texture option" | Filled pixel

subsection \<open>The host renderer\<close>

text \<open>
  The state of the host that \<open>readPixel\<close> can touch: the current render-target
  binding, the textures allocated and not yet destroyed, and the calls issued so far
  (oldest first) with how each ended.
\<close>

record world =
  bound :: "texture option"
  live :: "texture list"
  log :: "(call \<times> outcome) list"

text \<open>
  The renderer that \<open>readPixel\<close> takes from \<open>canvas.app\<close>. What it answers is not
  decided by this module: each call may throw or return, depending on its arguments and
  on the state of the host.
\<close>

record host =
  generateTexture_outcome :: "target \<Rightarrow> world \<Rightarrow> exn + texture option"
  bind_outcome :: "texture \<Rightarrow> world \<Rightarrow> exn option"
  readPixels_outcome ::
    "jsnum \<Rightarrow> jsnum \<Rightarrow> int \<Rightarrow> int \<Rightarrow> gl_enum \<Rightarrow> gl_enum \<Rightarrow> world \<Rightarrow> exn + byte list"
  destroy_outcome :: "texture \<Rightarrow> bool \<Rightarrow> world \<Rightarrow> exn option"

text \<open>A computation runs on the host state and either throws or returns a value.\<close>

type_synonym 'a comp = "world \<Rightarrow> (exn + 'a) \<times> world"

definition ret :: "'a \<Rightarrow> 'a comp" where
  "ret v w = (Inr v, w)"

definition throw :: "exn \<Rightarrow> 'a comp" where
  "throw e w = (Inl e, w)"

definition bnd :: "'a comp \<Rightarrow> ('a \<Rightarrow> 'b comp) \<Rightarrow> 'b comp" where
  "bnd m f w = (case m w of (Inl e, w') \<Rightarrow> (Inl e, w') | (Inr v, w') \<Rightarrow> f v w')"

definition record_call :: "call \<Rightarrow> outcome \<Rightarrow> world \<Rightarrow> world" where
  "record_call c out w = w\<lparr>log := log w @ [(c, out)]\<rparr>"

definition calls_since :: "world \<Rightarrow> world \<Rightarrow> (call \<times> outcome) list" where
  "calls_since w w' = drop (length (log w)) (log w')"

text \<open>
  Modelled from the spec: the host rendering engine is not part of this repository.
  Section 6 of the specification gives its four entry points: \<open>generateTexture\<close>
  returns a texture owned by the caller, \<open>bind\<close> sets the process-wide current read
  target, \<open>readPixels\<close> is a synchronous read into the buffer it is given, and
  \<open>destroy\<close> releases a texture. A call that throws changes nothing but the log.
\<close>

definition generateTexture :: "host \<Rightarrow> target \<Rightarrow> texture option comp" where
  "generateTexture h tgt w =
     (case generateTexture_outcome h tgt w of
        Inl e \<Rightarrow> (Inl e, record_call (GenerateTexture tgt) (Threw e) w)
      | Inr None \<Rightarrow> (Inr None, record_call (GenerateTexture tgt) (Gave None) w)
      | Inr (Some t) \<Rightarrow>
          (Inr (Some t),
           record_call (GenerateTexture tgt) (Gave (Some t)) (w\<lparr>live := t # live w\<rparr>)))"

definition renderTexture_bind :: "host \<Rightarrow> texture \<Rightarrow> unit comp" where
  "renderTexture_bind h t w =
     (case bind_outcome h t w of
        Some e \<Rightarrow> (Inl e, record_call (Bind t) (Threw e) w)
      | None \<Rightarrow> (Inr (), record_call (Bind t) Returned (w\<lparr>bound := Some t\<rparr>)))"

text \<open>A typed array is created filled with zeros and has a fixed length: a write fills
  it from index 0 and what does not fit is dropped.\<close>

definition new_Uint8Array :: "nat \<Rightarrow> pixel" where
  "new_Uint8Array n = replicate n 0"

definition typed_array_write :: "pixel \<Rightarrow> byte list \<Rightarrow> pixel" where
  "typed_array_write buf data = take (length buf) data @ drop (length data) buf"

definition gl_readPixels ::
  "host \<Rightarrow> jsnum \<Rightarrow> jsnum \<Rightarrow> int \<Rightarrow> int \<Rightarrow> gl_enum \<Rightarrow> gl_enum \<Rightarrow> pixel \<Rightarrow> pixel comp" where
  "gl_readPixels h x y wd ht fmt ty buf w =
     (case readPixels_outcome h x y wd ht fmt ty w of
        Inl e \<Rightarrow> (Inl e, record_call (ReadPixels x y wd ht fmt ty buf) (Threw e) w)
      | Inr data \<Rightarrow>
          (Inr (typed_array_write buf data),
           record_call (ReadPixels x y wd ht fmt ty buf)
             (Filled (typed_array_write buf data)) w))"

definition texture_destroy :: "host \<Rightarrow> texture \<Rightarrow> bool \<Rightarrow> unit comp" where
  "texture_destroy h t deep w =
     (case destroy_outcome h t deep w of
        Some e \<Rightarrow> (Inl e, record_call (Destroy t deep) (Threw e) w)
      | None \<Rightarrow> (Inr (), record_call (Destroy t deep) Returned (w\<lparr>live := remove1 t (live w)\<rparr>)))"

subsection \<open>The function\<close>

text \<open>
  Lines 88 to 97: the texture to sample and the flag \<open>generated\<close>.
  \<^verbatim>\<open>
  let generated = false;
  if (target instanceof PIXI.RenderTexture) { renderTexture = target; }
  else { renderTexture = renderer.generateTexture(target); generated = true; }
  \<close>
  A falsy result of \<open>generateTexture\<close> is \<open>None\<close>.
\<close>

definition select_texture :: "host \<Rightarrow> target \<Rightarrow> (texture option \<times> bool) comp" where
  "select_texture h target =
     (case target of
        RenderTexture t \<Rightarrow> ret (Some t, False)
      | Other d \<Rightarrow> bnd (generateTexture h target) (\<lambda>r. ret (r, True)))"

text \<open>\<open>renderTexture.baseTexture.resolution\<close>: a \<open>TypeError\<close> when \<open>baseTexture\<close> is
  \<open>null\<close>.\<close>

definition read_resolution :: "texture \<Rightarrow> jsnum comp" where
  "read_resolution t = (case baseTexture t of None \<Rightarrow> throw TypeError | Some b \<Rightarrow> ret (resolution b))"

text \<open>
  Lines 98 to 109.
  \<^verbatim>\<open>
  if (renderTexture) {
    resolution = renderTexture.baseTexture.resolution;
    renderer.renderTexture.bind(renderTexture);
  }
  const pixel = new Uint8Array(4);
  const { gl } = renderer;
  gl.readPixels(x * resolution, y * resolution, 1, 1, gl.RGBA, gl.UNSIGNED_BYTE, pixel);
  if (generated) { renderTexture.destroy(true); }
  return pixel;
  \<close>
  Calling \<open>destroy\<close> on a falsy \<open>renderTexture\<close> throws a \<open>TypeError\<close>. Nothing is
  caught: the first exception ends the call.
\<close>

definition readPixel :: "host \<Rightarrow> target \<Rightarrow> jsnum option \<Rightarrow> jsnum option \<Rightarrow> pixel comp" where
  "readPixel h target x y =
     bnd (select_texture h target) (\<lambda>(renderTexture, generated).
     bnd (case renderTexture of
            Some t \<Rightarrow>
              bnd (read_resolution t) (\<lambda>r.
              bnd (renderTexture_bind h t) (\<lambda>_. ret (Some r)))
          | None \<Rightarrow> ret None) (\<lambda>res.
     bnd (gl_readPixels h
            (js_times (default_zero x) (to_number res))
            (js_times (default_zero y) (to_number res))
            1 1 RGBA UNSIGNED_BYTE (new_Uint8Array 4)) (\<lambda>pixel.
     bnd (if generated
          then (case renderTexture of
                  Some t \<Rightarrow> texture_destroy h t True
                | None \<Rightarrow> throw TypeError)
          else ret ()) (\<lambda>_.
     ret pixel))))"

subsection \<open>Hosts and states for the examples\<close>

text \<open>A host that hands out the texture \<open>t\<close>, whose \<open>bind\<close> ends as \<open>b\<close> says and whose
  \<open>readPixels\<close> ends as \<open>r\<close> says; \<open>destroy\<close> succeeds.\<close>

definition scripted_host :: "texture \<Rightarrow> exn option \<Rightarrow> exn + byte list \<Rightarrow> host" where
  "scripted_host t b r =
     \<lparr>generateTexture_outcome = (\<lambda>_ _. Inr (Some t)),
      bind_outcome = (\<lambda>_ _. b),
      readPixels_outcome = (\<lambda>_ _ _ _ _ _ _. r),
      destroy_outcome = (\<lambda>_ _ _. None)\<rparr>"

text \<open>The 16 by 16 texture number \<open>i\<close> of resolution \<open>r\<close>.\<close>

definition tex :: "nat \<Rightarrow> jsnum \<Rightarrow> texture" where
  "tex i r = \<lparr>tex_id = i, width = 16, height = 16, baseTexture = Some \<lparr>resolution = r\<rparr>\<rparr>"

text \<open>A host on which nothing has happened yet, and one that has texture 1 allocated
  and bound.\<close>

definition idle :: world where
  "idle = \<lparr>bound = None, live = [], log = []\<rparr>"

definition busy :: world where
  "busy = \<lparr>bound = Some (tex 1 (js_int 1)), live = [tex 1 (js_int 1)], log = []\<rparr>"

subsection \<open>Reading the log\<close>

text \<open>How many of the calls issued between two states satisfy \<open>P\<close>.\<close>

definition count_calls :: "(call \<Rightarrow> bool) \<Rightarrow> world \<Rightarrow> world \<Rightarrow> nat" where
  "count_calls P w w' = length (filter (\<lambda>c. P (fst c)) (calls_since w w'))"

text \<open>The textures that the logged calls handed out.\<close>

fun generated_textures :: "(call \<times> outcome) list \<Rightarrow> texture list" where
  "generated_textures [] = []"
| "generated_textures ((c, Gave (Some t)) # cs) = t # generated_textures cs"
| "generated_textures (_ # cs) = generated_textures cs"

text \<open>The textures handed out between two states that no completed deep \<open>destroy\<close>
  between the same states released.\<close>

definition leaked :: "world \<Rightarrow> world \<Rightarrow> texture list" where
  "leaked w w' =
     filter (\<lambda>t. (Destroy t True, Returned) \<notin> set (calls_since w w'))
       (generated_textures (calls_since w w'))"

text \<open>The \<open>readPixels\<close> calls issued between two states.\<close>

definition reads_issued :: "world \<Rightarrow> world \<Rightarrow> call list" where
  "reads_issued w w' = filter is_ReadPixels (map fst (calls_since w w'))"

text \<open>
  The value of the variable \<open>renderTexture\<close> of a call, read off its target and the
  log: the target when it is a render texture, and otherwise the texture that
  \<open>generateTexture\<close> gave, if it gave one.
\<close>

definition sampled_texture :: "target \<Rightarrow> world \<Rightarrow> world \<Rightarrow> texture option" where
  "sampled_texture target w w' =
     (case target of
        RenderTexture t \<Rightarrow> Some t
      | Other d \<Rightarrow> (case generated_textures (calls_since w w') of [] \<Rightarrow> None | t # ts \<Rightarrow> Some t))"

text \<open>The resolution factor of that texture: the value of the variable \<open>resolution\<close>,
  \<open>undefined\<close> (\<open>None\<close>) when there is no texture or no \<open>baseTexture\<close>.\<close>

definition sampled_resolution :: "target \<Rightarrow> world \<Rightarrow> world \<Rightarrow> jsnum option" where
  "sampled_resolution target w w' =
     (case sampled_texture target w w' of
        None \<Rightarrow> None
      | Some t \<Rightarrow> (case baseTexture t of None \<Rightarrow> None | Some b \<Rightarrow> Some (resolution b)))"

text \<open>The read of one pixel at the coordinates scaled by a resolution.\<close>

definition scaled_read :: "jsnum option \<Rightarrow> jsnum option \<Rightarrow> jsnum option \<Rightarrow> call" where
  "scaled_read x y res =
     ReadPixels (js_times (default_zero x) (to_number res))
       (js_times (default_zero y) (to_number res)) 1 1 RGBA UNSIGNED_BYTE (new_Uint8Array 4)"

section \<open>Properties of the colour conversions\<close>

lemma webToHex_Cons:
  "webToHex (c # cs) = (if c = CHR ''#'' then ''0x'' @ cs else c # webToHex cs)"
  by (simp add: webToHex_def)

lemma hexToWeb_Cons:
  "hexToWeb (c # cs) =
     (if c = CHR ''0'' \<and> take 1 cs = ''x'' then CHR ''#'' # drop 1 cs else c # hexToWeb cs)"
  by (cases cs) (auto simp: hexToWeb_def)

lemma webToHex_head:
  assumes "CHR ''#'' \<in> set cs" and "take 1 cs \<noteq> ''x''"
  shows "take 1 (webToHex cs) \<noteq> ''x''"
  using assms by (cases cs) (auto simp: webToHex_Cons)

lemma includes_0x_Cons:
  "js_includes (c # cs) ''0x'' \<longleftrightarrow> (c = CHR ''0'' \<and> take 1 cs = ''x'') \<or> js_includes cs ''0x''"
  by (cases cs) auto

lemma hexToWeb_webToHex_aux:
  "CHR ''#'' \<in> set s \<Longrightarrow> \<not> js_includes s ''0x'' \<Longrightarrow> hexToWeb (webToHex s) = s"
proof (induction s)
  case Nil
  then show ?case by simp
next
  case (Cons c cs)
  show ?case
  proof (cases "c = CHR ''#''")
    case True
    then show ?thesis
      by (simp add: webToHex_Cons hexToWeb_Cons)
  next
    case False
    with Cons.prems have in_cs: "CHR ''#'' \<in> set cs"
      by simp
    from Cons.prems have no_here: "\<not> (c = CHR ''0'' \<and> take 1 cs = ''x'')"
      and no_later: "\<not> js_includes cs ''0x''"
      by (simp_all add: includes_0x_Cons del: js_includes.simps)
    have ih: "hexToWeb (webToHex cs) = cs"
      using Cons.IH in_cs no_later by blast
    have "\<not> (c = CHR ''0'' \<and> take 1 (webToHex cs) = ''x'')"
    proof (cases "c = CHR ''0''")
      case True
      with no_here have "take 1 cs \<noteq> ''x''" by blast
      with in_cs have "take 1 (webToHex cs) \<noteq> ''x''" by (rule webToHex_head)
      then show ?thesis by blast
    next
      case False
      then show ?thesis by simp
    qed
    with False ih show ?thesis
      by (simp add: webToHex_Cons hexToWeb_Cons)
  qed
qed

text \<open>
  Claim C9. For every string that contains the character \<open>#\<close> and does not contain the
  substring \<open>0x\<close>, converting with \<open>webToHex\<close> and back with \<open>hexToWeb\<close> gives the
  string again.
\<close>

theorem hexToWeb_webToHex:
  "CHR ''#'' \<in> set s \<and> \<not> js_includes s ''0x'' \<longrightarrow> hexToWeb (webToHex s) = s"
  using hexToWeb_webToHex_aux by blast

theorem hexToWeb_webToHex_witness:
  "CHR ''#'' \<in> set ''#FF0000'' \<and> \<not> js_includes ''#FF0000'' ''0x''
   \<and> webToHex ''#FF0000'' = ''0xFF0000''
   \<and> hexToWeb (webToHex ''#FF0000'') = ''#FF0000''"
  using hexToWeb_webToHex [of "''#FF0000''"] by (simp add: webToHex_def)

section \<open>Properties of \<open>hexObjsToArr\<close>\<close>

lemma fold_push_point:
  "fold push_point hex acc = acc @ concat (map (\<lambda>p. [point_x p, point_y p]) hex)"
  by (induction hex arbitrary: acc) (simp_all add: push_point_def)

lemma flat_length: "length (concat (map (\<lambda>p. [point_x p, point_y p]) hex)) = 2 * length hex"
  by (induction hex) simp_all

lemma flat_nth:
  "i < length hex \<Longrightarrow>
     concat (map (\<lambda>p. [point_x p, point_y p]) hex) ! (2 * i) = point_x (hex ! i)
   \<and> concat (map (\<lambda>p. [point_x p, point_y p]) hex) ! (2 * i + 1) = point_y (hex ! i)"
proof (induction hex arbitrary: i)
  case Nil
  then show ?case by simp
next
  case (Cons p ps)
  then show ?case by (cases i) simp_all
qed

text \<open>
  Claim C10. For a non-empty array of \<open>n\<close> points, \<open>hexObjsToArr\<close> returns an array of
  \<open>2 * n + 2\<close> elements: the element \<open>2 * i\<close> is the \<open>x\<close> and the element \<open>2 * i + 1\<close>
  the \<open>y\<close> of the point \<open>i\<close>, and the last two elements are the \<open>x\<close> and \<open>y\<close> of the
  first point.
\<close>

theorem hexObjsToArr_closed:
  "hex \<noteq> [] \<Longrightarrow>
     \<exists>a. hexObjsToArr hex = Inr a \<and> length a = 2 * length hex + 2
       \<and> (\<forall>i < length hex. a ! (2 * i) = point_x (hex ! i) \<and> a ! (2 * i + 1) = point_y (hex ! i))
       \<and> a ! (2 * length hex) = point_x (hex ! 0)
       \<and> a ! (2 * length hex + 1) = point_y (hex ! 0)"
proof -
  assume ne: "hex \<noteq> []"
  let ?flat = "concat (map (\<lambda>p. [point_x p, point_y p]) hex)"
  let ?a = "?flat @ [point_x (hex ! 0), point_y (hex ! 0)]"
  from ne have res: "hexObjsToArr hex = Inr ?a"
    by (cases hex) (simp_all add: hexObjsToArr_def fold_push_point push_point_def)
  have len: "length ?a = 2 * length hex + 2"
    by (simp add: flat_length)
  have body: "\<forall>i < length hex. ?a ! (2 * i) = point_x (hex ! i) \<and> ?a ! (2 * i + 1) = point_y (hex ! i)"
  proof (intro allI impI)
    fix i assume i: "i < length hex"
    then have "2 * i < length ?flat" and "2 * i + 1 < length ?flat"
      by (simp_all add: flat_length)
    then have "?a ! (2 * i) = ?flat ! (2 * i)" and "?a ! (2 * i + 1) = ?flat ! (2 * i + 1)"
      by (simp_all only: nth_append if_True)
    with flat_nth [OF i] show "?a ! (2 * i) = point_x (hex ! i) \<and> ?a ! (2 * i + 1) = point_y (hex ! i)"
      by simp
  qed
  have close: "?a ! (2 * length hex) = point_x (hex ! 0) \<and> ?a ! (2 * length hex + 1) = point_y (hex ! 0)"
    by (simp add: nth_append flat_length)
  from res len body close show ?thesis by blast
qed

theorem hexObjsToArr_closed_witness:
  "hexObjsToArr [\<lparr>point_x = 1, point_y = 2\<rparr>, \<lparr>point_x = 3, point_y = 4::int\<rparr>] = Inr [1, 2, 3, 4, 1, 2]
   \<and> hexObjsToArr ([] :: int point list) = Inl TypeError"
  using hexObjsToArr_closed [of "[\<lparr>point_x = 1, point_y = 2\<rparr>, \<lparr>point_x = 3, point_y = 4::int\<rparr>]"]
  by (simp add: hexObjsToArr_def push_point_def)

section \<open>Properties of the numbers\<close>

lemma bit_length_le: "n < 2 ^ k \<Longrightarrow> bit_length n \<le> k"
proof (induction k arbitrary: n)
  case 0
  then show ?case by (simp add: bit_length.simps)
next
  case (Suc k)
  show ?case
  proof (cases "n = 0")
    case True
    then show ?thesis by (simp add: bit_length.simps)
  next
    case False
    from Suc.prems have "n div 2 < 2 ^ k" by simp
    then have "bit_length (n div 2) \<le> k" by (rule Suc.IH)
    with False show ?thesis by (subst bit_length.simps) simp
  qed
qed

lemma bit_length_eq: "2 ^ k \<le> n \<Longrightarrow> n < 2 ^ Suc k \<Longrightarrow> bit_length n = Suc k"
proof (induction k arbitrary: n)
  case 0
  then have "n = 1" by simp
  then show ?case by (simp add: bit_length.simps)
next
  case (Suc k)
  from Suc.prems have "2 ^ k \<le> n div 2" and "n div 2 < 2 ^ Suc k" by simp_all
  then have "bit_length (n div 2) = Suc k" by (rule Suc.IH)
  moreover from Suc.prems have "n \<noteq> 0" by auto
  ultimately show ?case by (subst bit_length.simps) simp
qed

text \<open>
  A product that needs no more than 53 binary digits and no exponent out of range is
  not rounded: on integers below \<open>2 ^ 53\<close> the operator \<open>*\<close> is the exact product.
\<close>

lemma round_to_double_exact:
  assumes "m < 2 ^ 53" and "- 1074 \<le> e" and "e \<le> 971"
  shows "round_to_double s m e = Finite s m e"
proof -
  from assms(1) have "bit_length m \<le> 53" by (rule bit_length_le)
  with assms(2, 3) show ?thesis
    by (simp add: round_to_double_def Let_def)
qed

lemma js_times_exact:
  "m1 * m2 < 2 ^ 53 \<Longrightarrow> - 1074 \<le> e1 + e2 \<Longrightarrow> e1 + e2 \<le> 971 \<Longrightarrow>
     js_times (Finite s1 m1 e1) (Finite s2 m2 e2) = Finite (s1 \<noteq> s2) (m1 * m2) (e1 + e2)"
  by (simp add: round_to_double_exact)

lemma js_times_js_int:
  assumes "\<bar>a * b\<bar> < 2 ^ 53" and "a * b \<noteq> 0"
  shows "js_times (js_int a) (js_int b) = js_int (a * b)"
proof -
  have "nat \<bar>a\<bar> * nat \<bar>b\<bar> = nat \<bar>a * b\<bar>"
    by (simp add: abs_mult nat_mult_distrib)
  moreover from assms(1) have "nat \<bar>a * b\<bar> < 2 ^ 53"
    by simp
  moreover from assms(2) have "(a < 0) \<noteq> (b < 0) \<longleftrightarrow> a * b < 0"
    by (auto simp: mult_less_0_iff not_less order_le_less)
  ultimately show ?thesis
    by (simp add: js_int_def round_to_double_exact)
qed

text \<open>Beyond 53 binary digits the product is rounded, and a resolution need not be an
  integer.\<close>

lemma js_times_rounds:
  "js_times (js_int 94906267) (js_int 94906267) = Finite False 4503599757937644 1"
proof -
  have a: "bit_length 9007199515875289 = 54"
    using bit_length_eq [of 53 9007199515875289] by simp
  have b: "bit_length 4503599757937644 = 53"
    using bit_length_eq [of 52 4503599757937644] by simp
  have "round_to_double False 9007199515875289 0 = Finite False 4503599757937644 1"
    by (simp add: round_to_double_def Let_def a b)
  then show ?thesis
    by (simp add: js_int_def)
qed

lemma js_times_fraction:
  "js_times (js_int 3) (Finite False 3 (- 1)) = Finite False 9 (- 1)"
  by (simp add: js_int_def round_to_double_exact)

section \<open>Properties of \<open>readPixel\<close>\<close>

lemmas comp_defs = bnd_def ret_def throw_def

lemmas host_defs = generateTexture_def renderTexture_bind_def gl_readPixels_def
  texture_destroy_def record_call_def

lemmas rp_defs = readPixel_def select_texture_def read_resolution_def

lemmas example_defs = scripted_host_def tex_def idle_def busy_def typed_array_write_def
  default_zero_def js_int_def round_to_double_exact
  to_number_def

lemma new_Uint8Array_4: "new_Uint8Array 4 = [0, 0, 0, 0]"
  by (simp add: new_Uint8Array_def eval_nat_numeral)

lemma length_typed_array_write: "length (typed_array_write buf data) = length buf"
  by (simp add: typed_array_write_def)

lemma calls_since_append: "log w' = log w @ cs \<Longrightarrow> calls_since w w' = cs"
  by (simp add: calls_since_def)

text \<open>What a call that returns has done, for each kind of target.\<close>

lemma readPixel_Other_returns:
  assumes "readPixel h (Other d) x y w = (Inr p, w')"
  shows "\<exists>t b data. baseTexture t = Some b
     \<and> p = typed_array_write (new_Uint8Array 4) data
     \<and> log w' = log w @
         [(GenerateTexture (Other d), Gave (Some t)), (Bind t, Returned),
          (ReadPixels (js_times (default_zero x) (resolution b))
             (js_times (default_zero y) (resolution b)) 1 1 RGBA UNSIGNED_BYTE (new_Uint8Array 4),
           Filled p),
          (Destroy t True, Returned)]
     \<and> w' = w\<lparr>bound := Some t, log := log w'\<rparr>"
  using assms
  by (auto simp: rp_defs comp_defs host_defs to_number_def
      split: sum.splits option.splits prod.splits if_splits)

lemma readPixel_RenderTexture_returns:
  assumes "readPixel h (RenderTexture t) x y w = (Inr p, w')"
  shows "\<exists>b data. baseTexture t = Some b
     \<and> p = typed_array_write (new_Uint8Array 4) data
     \<and> log w' = log w @
         [(Bind t, Returned),
          (ReadPixels (js_times (default_zero x) (resolution b))
             (js_times (default_zero y) (resolution b)) 1 1 RGBA UNSIGNED_BYTE (new_Uint8Array 4),
           Filled p)]
     \<and> w' = w\<lparr>bound := Some t, log := log w'\<rparr>"
  using assms
  by (auto simp: rp_defs comp_defs host_defs to_number_def
      split: sum.splits option.splits prod.splits if_splits)

text \<open>Every way a call can go, for each kind of target.\<close>

lemmas path_defs = rp_defs comp_defs host_defs to_number_def scaled_read_def

lemma readPixel_RenderTexture_paths:
  assumes run: "readPixel h (RenderTexture t) x y w = (r, w')"
  shows "(baseTexture t = None \<and> r = Inl TypeError \<and> w' = w)
    \<or> (\<exists>b e. baseTexture t = Some b \<and> bind_outcome h t w = Some e \<and> r = Inl e
           \<and> w' = w\<lparr>log := log w @ [(Bind t, Threw e)]\<rparr>)
    \<or> (\<exists>b e. baseTexture t = Some b \<and> bind_outcome h t w = None \<and> r = Inl e
           \<and> w' = w\<lparr>bound := Some t,
                 log := log w @ [(Bind t, Returned),
                                 (scaled_read x y (Some (resolution b)), Threw e)]\<rparr>)
    \<or> (\<exists>b p. baseTexture t = Some b \<and> bind_outcome h t w = None \<and> r = Inr p
           \<and> w' = w\<lparr>bound := Some t,
                 log := log w @ [(Bind t, Returned),
                                 (scaled_read x y (Some (resolution b)), Filled p)]\<rparr>)"
proof (cases "baseTexture t")
  case None
  then have "readPixel h (RenderTexture t) x y w = (Inl TypeError, w)"
    by (simp add: path_defs)
  with run have "r = Inl TypeError" "w' = w" by simp_all
  with None show ?thesis by blast
next
  case (Some b)
  note base = this
  show ?thesis
  proof (cases "bind_outcome h t w")
    case (Some e)
    with base have "readPixel h (RenderTexture t) x y w
        = (Inl e, w\<lparr>log := log w @ [(Bind t, Threw e)]\<rparr>)"
      by (simp add: path_defs)
    with run have "r = Inl e" "w' = w\<lparr>log := log w @ [(Bind t, Threw e)]\<rparr>" by simp_all
    with base Some show ?thesis by blast
  next
    case None
    note bind = this
    let ?w1 = "w\<lparr>bound := Some t, log := log w @ [(Bind t, Returned)]\<rparr>"
    show ?thesis
    proof (cases "readPixels_outcome h (js_times (default_zero x) (resolution b))
        (js_times (default_zero y) (resolution b)) 1 1 RGBA UNSIGNED_BYTE ?w1")
      case (Inl e)
      with base bind have "readPixel h (RenderTexture t) x y w
        = (Inl e, w\<lparr>bound := Some t,
                 log := log w @ [(Bind t, Returned),
                                 (scaled_read x y (Some (resolution b)), Threw e)]\<rparr>)"
        by (simp add: path_defs)
      with run have "r = Inl e" "w' = w\<lparr>bound := Some t,
                 log := log w @ [(Bind t, Returned),
                                 (scaled_read x y (Some (resolution b)), Threw e)]\<rparr>"
        by simp_all
      with base bind show ?thesis by blast
    next
      case (Inr data)
      let ?p = "typed_array_write (new_Uint8Array 4) data"
      from Inr base bind have "readPixel h (RenderTexture t) x y w
        = (Inr ?p, w\<lparr>bound := Some t,
                 log := log w @ [(Bind t, Returned),
                                 (scaled_read x y (Some (resolution b)), Filled ?p)]\<rparr>)"
        by (simp add: path_defs)
      with run have "r = Inr ?p" "w' = w\<lparr>bound := Some t,
                 log := log w @ [(Bind t, Returned),
                                 (scaled_read x y (Some (resolution b)), Filled ?p)]\<rparr>"
        by simp_all
      with base bind show ?thesis by blast
    qed
  qed
qed


lemma readPixel_Other_paths:
  assumes run: "readPixel h (Other d) x y w = (r, w')"
  shows "(\<exists>e. r = Inl e \<and> w' = w\<lparr>log := log w @ [(GenerateTexture (Other d), Threw e)]\<rparr>)
    \<or> (\<exists>e. r = Inl e
           \<and> w' = w\<lparr>log := log w @ [(GenerateTexture (Other d), Gave None),
                                     (scaled_read x y None, Threw e)]\<rparr>)
    \<or> (\<exists>p. r = Inl TypeError
           \<and> w' = w\<lparr>log := log w @ [(GenerateTexture (Other d), Gave None),
                                     (scaled_read x y None, Filled p)]\<rparr>)
    \<or> (\<exists>t. baseTexture t = None \<and> r = Inl TypeError
           \<and> w' = w\<lparr>live := t # live w,
                 log := log w @ [(GenerateTexture (Other d), Gave (Some t))]\<rparr>)
    \<or> (\<exists>t b e. baseTexture t = Some b \<and> r = Inl e
           \<and> w' = w\<lparr>live := t # live w,
                 log := log w @ [(GenerateTexture (Other d), Gave (Some t)),
                                 (Bind t, Threw e)]\<rparr>)
    \<or> (\<exists>t b e. baseTexture t = Some b \<and> r = Inl e
           \<and> w' = w\<lparr>live := t # live w, bound := Some t,
                 log := log w @ [(GenerateTexture (Other d), Gave (Some t)),
                                 (Bind t, Returned),
                                 (scaled_read x y (Some (resolution b)), Threw e)]\<rparr>)
    \<or> (\<exists>t b e p. baseTexture t = Some b \<and> r = Inl e
           \<and> w' = w\<lparr>live := t # live w, bound := Some t,
                 log := log w @ [(GenerateTexture (Other d), Gave (Some t)),
                                 (Bind t, Returned),
                                 (scaled_read x y (Some (resolution b)), Filled p),
                                 (Destroy t True, Threw e)]\<rparr>)
    \<or> (\<exists>t b p. baseTexture t = Some b \<and> r = Inr p
           \<and> w' = w\<lparr>bound := Some t,
                 log := log w @ [(GenerateTexture (Other d), Gave (Some t)),
                                 (Bind t, Returned),
                                 (scaled_read x y (Some (resolution b)), Filled p),
                                 (Destroy t True, Returned)]\<rparr>)"
proof (cases "generateTexture_outcome h (Other d) w")
  case (Inl e)
  then have "readPixel h (Other d) x y w
      = (Inl e, w\<lparr>log := log w @ [(GenerateTexture (Other d), Threw e)]\<rparr>)"
    by (simp add: path_defs)
  with run have "r = Inl e" "w' = w\<lparr>log := log w @ [(GenerateTexture (Other d), Threw e)]\<rparr>"
    by simp_all
  then show ?thesis by blast
next
  case (Inr g)
  note gen = this
  show ?thesis
  proof (cases g)
    case None
    note falsy = this
    let ?w1 = "w\<lparr>log := log w @ [(GenerateTexture (Other d), Gave None)]\<rparr>"
    show ?thesis
    proof (cases "readPixels_outcome h (js_times (default_zero x) NaN)
        (js_times (default_zero y) NaN) 1 1 RGBA UNSIGNED_BYTE ?w1")
      case (Inl e)
      with gen falsy have "readPixel h (Other d) x y w
        = (Inl e, w\<lparr>log := log w @ [(GenerateTexture (Other d), Gave None),
                                     (scaled_read x y None, Threw e)]\<rparr>)"
        by (simp add: path_defs)
      with run have "r = Inl e"
        "w' = w\<lparr>log := log w @ [(GenerateTexture (Other d), Gave None),
                                     (scaled_read x y None, Threw e)]\<rparr>"
        by simp_all
      then show ?thesis by blast
    next
      case (Inr data)
      let ?p = "typed_array_write (new_Uint8Array 4) data"
      from Inr gen falsy have "readPixel h (Other d) x y w
        = (Inl TypeError, w\<lparr>log := log w @ [(GenerateTexture (Other d), Gave None),
                                     (scaled_read x y None, Filled ?p)]\<rparr>)"
        by (simp add: path_defs)
      with run have "r = Inl TypeError"
        "w' = w\<lparr>log := log w @ [(GenerateTexture (Other d), Gave None),
                                     (scaled_read x y None, Filled ?p)]\<rparr>"
        by simp_all
      then show ?thesis by blast
    qed
  next
    case (Some t)
    note tex = this
    show ?thesis
    proof (cases "baseTexture t")
      case None
      with gen tex have "readPixel h (Other d) x y w
        = (Inl TypeError, w\<lparr>live := t # live w,
                 log := log w @ [(GenerateTexture (Other d), Gave (Some t))]\<rparr>)"
        by (simp add: path_defs)
      with run have "r = Inl TypeError"
        "w' = w\<lparr>live := t # live w,
                 log := log w @ [(GenerateTexture (Other d), Gave (Some t))]\<rparr>"
        by simp_all
      with None show ?thesis by blast
    next
      case (Some b)
      note base = this
      let ?w1 = "w\<lparr>live := t # live w,
        log := log w @ [(GenerateTexture (Other d), Gave (Some t))]\<rparr>"
      show ?thesis
      proof (cases "bind_outcome h t ?w1")
        case (Some e)
        with gen tex base have "readPixel h (Other d) x y w
          = (Inl e, w\<lparr>live := t # live w,
                 log := log w @ [(GenerateTexture (Other d), Gave (Some t)),
                                 (Bind t, Threw e)]\<rparr>)"
          by (simp add: path_defs)
        with run have "r = Inl e"
          "w' = w\<lparr>live := t # live w,
                 log := log w @ [(GenerateTexture (Other d), Gave (Some t)),
                                 (Bind t, Threw e)]\<rparr>"
          by simp_all
        with base show ?thesis by blast
      next
        case None
        note bind = this
        let ?w2 = "w\<lparr>live := t # live w, bound := Some t,
          log := log w @ [(GenerateTexture (Other d), Gave (Some t)), (Bind t, Returned)]\<rparr>"
        show ?thesis
        proof (cases "readPixels_outcome h (js_times (default_zero x) (resolution b))
            (js_times (default_zero y) (resolution b)) 1 1 RGBA UNSIGNED_BYTE ?w2")
          case (Inl e)
          with gen tex base bind have "readPixel h (Other d) x y w
            = (Inl e, w\<lparr>live := t # live w, bound := Some t,
                 log := log w @ [(GenerateTexture (Other d), Gave (Some t)),
                                 (Bind t, Returned),
                                 (scaled_read x y (Some (resolution b)), Threw e)]\<rparr>)"
            by (simp add: path_defs)
          with run have "r = Inl e"
            "w' = w\<lparr>live := t # live w, bound := Some t,
                 log := log w @ [(GenerateTexture (Other d), Gave (Some t)),
                                 (Bind t, Returned),
                                 (scaled_read x y (Some (resolution b)), Threw e)]\<rparr>"
            by simp_all
          with base show ?thesis by blast
        next
          case (Inr data)
          note read = this
          let ?p = "typed_array_write (new_Uint8Array 4) data"
          let ?w3 = "w\<lparr>live := t # live w, bound := Some t,
            log := log w @ [(GenerateTexture (Other d), Gave (Some t)), (Bind t, Returned),
              (ReadPixels (js_times (default_zero x) (resolution b))
                 (js_times (default_zero y) (resolution b)) 1 1 RGBA UNSIGNED_BYTE
                 (new_Uint8Array 4), Filled ?p)]\<rparr>"
          show ?thesis
          proof (cases "destroy_outcome h t True ?w3")
            case None
            with gen tex base bind read have "readPixel h (Other d) x y w
              = (Inr ?p, w\<lparr>bound := Some t,
                 log := log w @ [(GenerateTexture (Other d), Gave (Some t)),
                                 (Bind t, Returned),
                                 (scaled_read x y (Some (resolution b)), Filled ?p),
                                 (Destroy t True, Returned)]\<rparr>)"
              by (simp add: path_defs)
            with run have "r = Inr ?p"
              "w' = w\<lparr>bound := Some t,
                 log := log w @ [(GenerateTexture (Other d), Gave (Some t)),
                                 (Bind t, Returned),
                                 (scaled_read x y (Some (resolution b)), Filled ?p),
                                 (Destroy t True, Returned)]\<rparr>"
              by simp_all
            with base show ?thesis by blast
          next
            case (Some e)
            with gen tex base bind read have "readPixel h (Other d) x y w
              = (Inl e, w\<lparr>live := t # live w, bound := Some t,
                 log := log w @ [(GenerateTexture (Other d), Gave (Some t)),
                                 (Bind t, Returned),
                                 (scaled_read x y (Some (resolution b)), Filled ?p),
                                 (Destroy t True, Threw e)]\<rparr>)"
              by (simp add: path_defs)
            with run have "r = Inl e"
              "w' = w\<lparr>live := t # live w, bound := Some t,
                 log := log w @ [(GenerateTexture (Other d), Gave (Some t)),
                                 (Bind t, Returned),
                                 (scaled_read x y (Some (resolution b)), Filled ?p),
                                 (Destroy t True, Threw e)]\<rparr>"
              by simp_all
            with base show ?thesis by blast
          qed
        qed
      qed
    qed
  qed
qed

lemmas log_defs = calls_since_def reads_issued_def sampled_texture_def sampled_resolution_def
  count_calls_def leaked_def

text \<open>
  Claim C2, as the code has it. Every call issues at most one \<open>readPixels\<close>. The read
  is issued unless \<open>generateTexture\<close> or \<open>bind\<close> threw before it or the texture has
  no \<open>baseTexture\<close>; it is at \<open>(x * resolution, y * resolution)\<close> with width 1,
  height 1, format \<open>RGBA\<close> and type \<open>UNSIGNED_BYTE\<close>, where \<open>resolution\<close> is that of
  the texture sampled (\<open>undefined\<close>, which gives \<open>NaN\<close>, when \<open>generateTexture\<close> gave no
  texture) and \<open>*\<close> is the product of doubles. A call that returns has issued exactly
  this read. With resolution 2, a query at (3, 4) reads at (6, 8).
\<close>

theorem readPixel_scaled_read:
  assumes "readPixel h target x y w = (r, w')"
  shows "(reads_issued w w' = []
          \<or> reads_issued w w' = [scaled_read x y (sampled_resolution target w w')])
     \<and> (reads_issued w w' = [] \<longleftrightarrow>
          (\<exists>c e. (c, Threw e) \<in> set (calls_since w w') \<and> (is_GenerateTexture c \<or> is_Bind c))
          \<or> (\<exists>t. sampled_texture target w w' = Some t \<and> baseTexture t = None))
     \<and> ((\<exists>p. r = Inr p) \<longrightarrow>
          (\<exists>t b. sampled_texture target w w' = Some t \<and> baseTexture t = Some b
             \<and> reads_issued w w' =
                 [ReadPixels (js_times (default_zero x) (resolution b))
                    (js_times (default_zero y) (resolution b)) 1 1 RGBA UNSIGNED_BYTE
                    (new_Uint8Array 4)]))"
proof (cases target)
  case (RenderTexture t)
  with assms have run: "readPixel h (RenderTexture t) x y w = (r, w')" by simp
  from readPixel_RenderTexture_paths [OF run] show ?thesis
    unfolding RenderTexture
    by (elim disjE exE conjE) (auto simp: log_defs scaled_read_def to_number_def)
next
  case (Other d)
  with assms have run: "readPixel h (Other d) x y w = (r, w')" by simp
  from readPixel_Other_paths [OF run] show ?thesis
    unfolding Other
    by (elim disjE exE conjE) (auto simp: log_defs scaled_read_def to_number_def)
qed

theorem readPixel_scaled_read_witness:
  "readPixel (scripted_host (tex 7 (js_int 1)) None (Inr [1, 2, 3, 255]))
       (RenderTexture (tex 3 (js_int 2))) (Some (js_int 3)) (Some (js_int 4)) idle
     = (Inr [1, 2, 3, 255],
        \<lparr>bound = Some (tex 3 (js_int 2)), live = [],
         log = [(Bind (tex 3 (js_int 2)), Returned),
                (ReadPixels (js_int 6) (js_int 8) 1 1 RGBA UNSIGNED_BYTE [0, 0, 0, 0],
                 Filled [1, 2, 3, 255])]\<rparr>)
   \<and> reads_issued idle
        (snd (readPixel (scripted_host (tex 7 (js_int 1)) None (Inr [1, 2, 3, 255]))
           (RenderTexture (tex 3 (js_int 2))) (Some (js_int 3)) (Some (js_int 4)) idle))
     = [ReadPixels (js_int 6) (js_int 8) 1 1 RGBA UNSIGNED_BYTE [0, 0, 0, 0]]
   \<and> readPixel (scripted_host (tex 7 (Finite False 3 (- 1))) None (Inr [1, 2, 3, 255]))
       (Other 0) (Some (js_int 3)) (Some (js_int 4)) idle
     = (Inr [1, 2, 3, 255],
        \<lparr>bound = Some (tex 7 (Finite False 3 (- 1))), live = [],
         log = [(GenerateTexture (Other 0), Gave (Some (tex 7 (Finite False 3 (- 1))))),
                (Bind (tex 7 (Finite False 3 (- 1))), Returned),
                (ReadPixels (Finite False 9 (- 1)) (Finite False 12 (- 1)) 1 1 RGBA
                   UNSIGNED_BYTE [0, 0, 0, 0],
                 Filled [1, 2, 3, 255]),
                (Destroy (tex 7 (Finite False 3 (- 1))) True, Returned)]\<rparr>)
   \<and> reads_issued idle
        (snd (readPixel (scripted_host (tex 7 (Finite False 3 (- 1))) None (Inr [1, 2, 3, 255]))
           (Other 0) (Some (js_int 3)) (Some (js_int 4)) idle))
     = [ReadPixels (Finite False 9 (- 1)) (Finite False 12 (- 1)) 1 1 RGBA UNSIGNED_BYTE
          [0, 0, 0, 0]]"
proof -
  let ?w1 = "\<lparr>bound = Some (tex 3 (js_int 2)), live = [],
         log = [(Bind (tex 3 (js_int 2)), Returned),
                (ReadPixels (js_int 6) (js_int 8) 1 1 RGBA UNSIGNED_BYTE [0, 0, 0, 0],
                 Filled [1, 2, 3, 255])]\<rparr>"
  let ?w2 = "\<lparr>bound = Some (tex 7 (Finite False 3 (- 1))), live = [],
         log = [(GenerateTexture (Other 0), Gave (Some (tex 7 (Finite False 3 (- 1))))),
                (Bind (tex 7 (Finite False 3 (- 1))), Returned),
                (ReadPixels (Finite False 9 (- 1)) (Finite False 12 (- 1)) 1 1 RGBA
                   UNSIGNED_BYTE [0, 0, 0, 0],
                 Filled [1, 2, 3, 255]),
                (Destroy (tex 7 (Finite False 3 (- 1))) True, Returned)]\<rparr>"
  have run1: "readPixel (scripted_host (tex 7 (js_int 1)) None (Inr [1, 2, 3, 255]))
      (RenderTexture (tex 3 (js_int 2))) (Some (js_int 3)) (Some (js_int 4)) idle
      = (Inr [1, 2, 3, 255], ?w1)"
    by (simp add: rp_defs comp_defs host_defs example_defs new_Uint8Array_4)
  have run2: "readPixel (scripted_host (tex 7 (Finite False 3 (- 1))) None (Inr [1, 2, 3, 255]))
      (Other 0) (Some (js_int 3)) (Some (js_int 4)) idle
      = (Inr [1, 2, 3, 255], ?w2)"
    by (simp add: rp_defs comp_defs host_defs example_defs new_Uint8Array_4)
  have reads1: "reads_issued idle ?w1
      = [ReadPixels (js_int 6) (js_int 8) 1 1 RGBA UNSIGNED_BYTE [0, 0, 0, 0]]"
    by (simp add: log_defs idle_def)
  have reads2: "reads_issued idle ?w2
      = [ReadPixels (Finite False 9 (- 1)) (Finite False 12 (- 1)) 1 1 RGBA UNSIGNED_BYTE
           [0, 0, 0, 0]]"
    by (simp add: log_defs idle_def)
  from readPixel_scaled_read [OF run1] readPixel_scaled_read [OF run2]
  show ?thesis
    by (simp only: run1 run2 snd_conv reads1 reads2 simp_thms)
qed

text \<open>
  Claim C2, as the specification states it, fails: a call whose \<open>bind\<close> throws issues
  no \<open>readPixels\<close> at all.
\<close>

theorem readPixel_no_read_when_bind_throws:
  "readPixel (scripted_host (tex 7 (js_int 1)) (Some (HostError 1)) (Inr [1, 2, 3, 255]))
       (RenderTexture (tex 3 (js_int 2))) (Some (js_int 3)) (Some (js_int 4)) idle
     = (Inl (HostError 1),
        \<lparr>bound = None, live = [],
         log = [(Bind (tex 3 (js_int 2)), Threw (HostError 1))]\<rparr>)
   \<and> reads_issued idle
        (snd (readPixel (scripted_host (tex 7 (js_int 1)) (Some (HostError 1))
           (Inr [1, 2, 3, 255]))
           (RenderTexture (tex 3 (js_int 2))) (Some (js_int 3)) (Some (js_int 4)) idle))
     = []"
  by (simp add: rp_defs comp_defs host_defs example_defs new_Uint8Array_4 log_defs)




text \<open>
  Claim C4. On a target that is already a render texture, the flag \<open>generated\<close> is
  false, and the call, however it ends, issues no \<open>generateTexture\<close> and no \<open>destroy\<close>
  and leaves the allocated textures as they were.
\<close>

theorem readPixel_RenderTexture_no_alloc:
  "select_texture h (RenderTexture t) w = (Inr (Some t, False), w)
   \<and> count_calls is_GenerateTexture w (snd (readPixel h (RenderTexture t) x y w)) = 0
   \<and> count_calls is_Destroy w (snd (readPixel h (RenderTexture t) x y w)) = 0
   \<and> live (snd (readPixel h (RenderTexture t) x y w)) = live w"
  by (auto simp: rp_defs comp_defs host_defs count_calls_def calls_since_def
      split: sum.splits option.splits prod.splits)

theorem readPixel_RenderTexture_no_alloc_witness:
  "select_texture (scripted_host (tex 7 (js_int 1)) None (Inr [1, 2, 3, 4])) (RenderTexture (tex 3 (js_int 2))) busy
     = (Inr (Some (tex 3 (js_int 2)), False), busy)
   \<and> snd (readPixel (scripted_host (tex 7 (js_int 1)) None (Inr [1, 2, 3, 4])) (RenderTexture (tex 3 (js_int 2)))
        (Some (js_int 3)) (Some (js_int 4)) busy)
     = \<lparr>bound = Some (tex 3 (js_int 2)), live = [tex 1 (js_int 1)],
         log = [(Bind (tex 3 (js_int 2)), Returned),
                (ReadPixels (js_int 6) (js_int 8) 1 1 RGBA UNSIGNED_BYTE [0, 0, 0, 0],
                 Filled [1, 2, 3, 4])]\<rparr>
   \<and> count_calls is_GenerateTexture busy
        (snd (readPixel (scripted_host (tex 7 (js_int 1)) None (Inr [1, 2, 3, 4])) (RenderTexture (tex 3 (js_int 2)))
           (Some (js_int 3)) (Some (js_int 4)) busy)) = 0
   \<and> count_calls is_Destroy busy
        (snd (readPixel (scripted_host (tex 7 (js_int 1)) None (Inr [1, 2, 3, 4])) (RenderTexture (tex 3 (js_int 2)))
           (Some (js_int 3)) (Some (js_int 4)) busy)) = 0"
  using readPixel_RenderTexture_no_alloc
    [of "scripted_host (tex 7 (js_int 1)) None (Inr [1, 2, 3, 4])" "tex 3 (js_int 2)" busy
        "Some (js_int 3)" "Some (js_int 4)"]
  by (simp add: rp_defs comp_defs host_defs example_defs new_Uint8Array_4)

text \<open>
  Claim C5. The value a call returns is a buffer of exactly 4 bytes, each between 0 and
  255.
\<close>

theorem readPixel_four_bytes:
  assumes "readPixel h target x y w = (Inr p, w')"
  shows "length p = 4 \<and> list_all (\<lambda>b. 0 \<le> uint b \<and> uint b \<le> 255) p"
proof -
  have "\<exists>data. p = typed_array_write (new_Uint8Array 4) data"
  proof (cases target)
    case (RenderTexture t)
    with assms readPixel_RenderTexture_returns show ?thesis by blast
  next
    case (Other d)
    with assms readPixel_Other_returns show ?thesis by blast
  qed
  then have "length p = 4"
    by (auto simp: length_typed_array_write new_Uint8Array_def)
  moreover have "\<And>b :: byte. uint b \<le> 255"
  proof -
    fix b :: byte
    have "uint b < 2 ^ LENGTH(8)" by (rule uint_lt2p)
    then show "uint b \<le> 255" by simp
  qed
  ultimately show ?thesis
    by (simp add: list_all_iff)
qed

theorem readPixel_four_bytes_witness:
  "readPixel (scripted_host (tex 7 (js_int 1)) None (Inr [1, 2, 3, 255, 77, 78])) (RenderTexture (tex 3 (js_int 2)))
       (Some (js_int 3)) (Some (js_int 4)) idle
     = (Inr [1, 2, 3, 255],
        \<lparr>bound = Some (tex 3 (js_int 2)), live = [],
         log = [(Bind (tex 3 (js_int 2)), Returned),
                (ReadPixels (js_int 6) (js_int 8) 1 1 RGBA UNSIGNED_BYTE [0, 0, 0, 0],
                 Filled [1, 2, 3, 255])]\<rparr>)
   \<and> length [1, 2, 3, 255 :: byte] = 4
   \<and> list_all (\<lambda>b. 0 \<le> uint b \<and> uint b \<le> 255) [1, 2, 3, 255 :: byte]"
proof -
  let ?h = "scripted_host (tex 7 (js_int 1)) None (Inr [1, 2, 3, 255, 77, 78])"
  let ?w' = "\<lparr>bound = Some (tex 3 (js_int 2)), live = [],
         log = [(Bind (tex 3 (js_int 2)), Returned),
                (ReadPixels (js_int 6) (js_int 8) 1 1 RGBA UNSIGNED_BYTE [0, 0, 0, 0],
                 Filled [1, 2, 3, 255])]\<rparr>"
  have run: "readPixel ?h (RenderTexture (tex 3 (js_int 2))) (Some (js_int 3)) (Some (js_int 4)) idle
      = (Inr [1, 2, 3, 255], ?w')"
    by (simp add: rp_defs comp_defs host_defs example_defs new_Uint8Array_4)
  from readPixel_four_bytes [OF run] run show ?thesis
    by simp
qed

text \<open>
  Claim C6, as the code has it. On every path, what a call changes in the state of the
  host is the binding, the log, and the texture it leaves allocated when it ends with
  an exception after \<open>generateTexture\<close> handed one out. The binding is set to the
  texture sampled once \<open>bind\<close> has returned, and is never set back. A call that
  returns (which it does exactly when no host call throws and the texture sampled has a
  \<open>baseTexture\<close>) leaves no texture allocated: its only lasting effect is the binding.
  Unless the target is a render texture without \<open>baseTexture\<close>, the call reaches the
  host.
\<close>

theorem readPixel_only_rebinds:
  assumes "readPixel h target x y w = (r, w')"
  shows "w' = w\<lparr>live := leaked w w' @ live w,
              bound := (if \<exists>t. (Bind t, Returned) \<in> set (calls_since w w')
                        then sampled_texture target w w' else bound w),
              log := log w @ calls_since w w'\<rparr>
     \<and> ((\<exists>p. r = Inr p) \<longrightarrow>
          leaked w w' = []
          \<and> (\<exists>t. sampled_texture target w w' = Some t
                \<and> (Bind t, Returned) \<in> set (calls_since w w') \<and> bound w' = Some t))
     \<and> ((\<exists>p. r = Inr p) \<longleftrightarrow>
          (\<forall>c e. (c, Threw e) \<notin> set (calls_since w w'))
          \<and> (\<exists>t b. sampled_texture target w w' = Some t \<and> baseTexture t = Some b))
     \<and> (calls_since w w' = [] \<longrightarrow> (\<exists>t. target = RenderTexture t \<and> baseTexture t = None))"
proof (cases target)
  case (RenderTexture t)
  with assms have run: "readPixel h (RenderTexture t) x y w = (r, w')" by simp
  from readPixel_RenderTexture_paths [OF run] show ?thesis
    unfolding RenderTexture
    by (elim disjE exE conjE) (auto simp: log_defs scaled_read_def)
next
  case (Other d)
  with assms have run: "readPixel h (Other d) x y w = (r, w')" by simp
  from readPixel_Other_paths [OF run] show ?thesis
    unfolding Other
    by (elim disjE exE conjE) (auto simp: log_defs scaled_read_def)
qed

theorem readPixel_only_rebinds_witness:
  "readPixel (scripted_host (tex 7 (js_int 2)) None (Inr [1, 2, 3, 4])) (Other 0) None None busy
     = (Inr [1, 2, 3, 4],
        \<lparr>bound = Some (tex 7 (js_int 2)), live = [tex 1 (js_int 1)],
         log = [(GenerateTexture (Other 0), Gave (Some (tex 7 (js_int 2)))),
                (Bind (tex 7 (js_int 2)), Returned),
                (ReadPixels (js_int 0) (js_int 0) 1 1 RGBA UNSIGNED_BYTE [0, 0, 0, 0],
                 Filled [1, 2, 3, 4]),
                (Destroy (tex 7 (js_int 2)) True, Returned)]\<rparr>)
   \<and> bound busy = Some (tex 1 (js_int 1)) \<and> live busy = [tex 1 (js_int 1)]
   \<and> tex 1 (js_int 1) \<noteq> tex 7 (js_int 2)"
proof -
  let ?h = "scripted_host (tex 7 (js_int 2)) None (Inr [1, 2, 3, 4])"
  let ?w' = "\<lparr>bound = Some (tex 7 (js_int 2)), live = [tex 1 (js_int 1)],
         log = [(GenerateTexture (Other 0), Gave (Some (tex 7 (js_int 2)))),
                (Bind (tex 7 (js_int 2)), Returned),
                (ReadPixels (js_int 0) (js_int 0) 1 1 RGBA UNSIGNED_BYTE [0, 0, 0, 0],
                 Filled [1, 2, 3, 4]),
                (Destroy (tex 7 (js_int 2)) True, Returned)]\<rparr>"
  have run: "readPixel ?h (Other 0) None None busy = (Inr [1, 2, 3, 4], ?w')"
    by (simp add: rp_defs comp_defs host_defs example_defs new_Uint8Array_4)
  have rest: "bound busy = Some (tex 1 (js_int 1)) \<and> live busy = [tex 1 (js_int 1)]
      \<and> tex 1 (js_int 1) \<noteq> tex 7 (js_int 2)"
    by (simp add: busy_def tex_def)
  from readPixel_only_rebinds [OF run] show ?thesis
    by (simp only: run rest simp_thms)
qed

text \<open>
  Claim C6, as the specification states it, fails: when \<open>bind\<close> throws on a target that
  is not a render texture, the binding is as it was and the texture generated for the
  call stays allocated, a lasting effect that is not the binding.
\<close>

theorem readPixel_leaves_texture_when_bind_throws:
  "readPixel (scripted_host (tex 7 (js_int 2)) (Some (HostError 1)) (Inr [1, 2, 3, 4]))
       (Other 0) None None busy
     = (Inl (HostError 1),
        \<lparr>bound = Some (tex 1 (js_int 1)), live = [tex 7 (js_int 2), tex 1 (js_int 1)],
         log = [(GenerateTexture (Other 0), Gave (Some (tex 7 (js_int 2)))),
                (Bind (tex 7 (js_int 2)), Threw (HostError 1))]\<rparr>)
   \<and> bound busy = Some (tex 1 (js_int 1)) \<and> live busy = [tex 1 (js_int 1)]"
  by (simp add: rp_defs comp_defs host_defs example_defs new_Uint8Array_4)

text \<open>
  Claim C7. Whatever the target and the coordinates, on every path: a host call that
  throws is the last call issued and its exception, unchanged, is how \<open>readPixel\<close>
  ends; each host entry point is called at most once; \<open>readPixel\<close> ends with an
  exception of its own only when there is no texture or no \<open>baseTexture\<close>, never
  because of the coordinates, so it returns exactly when no host call throws and the
  texture sampled has a \<open>baseTexture\<close>; the read is issued at the scaled coordinates
  unless \<open>generateTexture\<close> or \<open>bind\<close> threw or the \<open>baseTexture\<close> is missing, with
  no check against the size of the texture; and the pixel a call returns is the buffer
  as that read left it.
\<close>

theorem readPixel_propagates:
  assumes "readPixel h target x y w = (r, w')"
  shows "(\<forall>c e. (c, Threw e) \<in> set (calls_since w w')
            \<longrightarrow> r = Inl e \<and> last (calls_since w w') = (c, Threw e))
     \<and> count_calls is_GenerateTexture w w' \<le> 1 \<and> count_calls is_Bind w w' \<le> 1
     \<and> count_calls is_ReadPixels w w' \<le> 1 \<and> count_calls is_Destroy w w' \<le> 1
     \<and> ((\<exists>p. r = Inr p) \<longleftrightarrow>
          (\<forall>c e. (c, Threw e) \<notin> set (calls_since w w'))
          \<and> (\<exists>t b. sampled_texture target w w' = Some t \<and> baseTexture t = Some b))
     \<and> (r = Inl TypeError \<and> (\<forall>c e. (c, Threw e) \<notin> set (calls_since w w')) \<longrightarrow>
          sampled_resolution target w w' = None)
     \<and> (reads_issued w w' = [scaled_read x y (sampled_resolution target w w')]
          \<or> reads_issued w w' = []
             \<and> ((\<exists>c e. (c, Threw e) \<in> set (calls_since w w')
                        \<and> (is_GenerateTexture c \<or> is_Bind c))
                 \<or> (\<exists>t. sampled_texture target w w' = Some t \<and> baseTexture t = None)))
     \<and> (\<forall>p. r = Inr p \<longrightarrow>
           (scaled_read x y (sampled_resolution target w w'), Filled p)
             \<in> set (calls_since w w'))"
proof (cases target)
  case (RenderTexture t)
  with assms have run: "readPixel h (RenderTexture t) x y w = (r, w')" by simp
  from readPixel_RenderTexture_paths [OF run] show ?thesis
    unfolding RenderTexture
    by (elim disjE exE conjE) (auto simp: log_defs scaled_read_def)
next
  case (Other d)
  with assms have run: "readPixel h (Other d) x y w = (r, w')" by simp
  from readPixel_Other_paths [OF run] show ?thesis
    unfolding Other
    by (elim disjE exE conjE) (auto simp: log_defs scaled_read_def)
qed

theorem readPixel_propagates_witness:
  "readPixel (scripted_host (tex 7 (js_int 1)) None (Inl (HostError 2)))
       (RenderTexture (tex 3 (js_int 1))) (Some (js_int 1000)) (Some (js_int (- 5))) idle
     = (Inl (HostError 2),
        \<lparr>bound = Some (tex 3 (js_int 1)), live = [],
         log = [(Bind (tex 3 (js_int 1)), Returned),
                (ReadPixels (js_int 1000) (js_int (- 5)) 1 1 RGBA UNSIGNED_BYTE [0, 0, 0, 0],
                 Threw (HostError 2))]\<rparr>)
   \<and> readPixel (scripted_host (tex 7 (js_int 1)) None (Inr [0, 0, 0, 0]))
       (RenderTexture (tex 3 (js_int 1))) (Some (js_int 1000)) (Some (js_int (- 5))) idle
     = (Inr [0, 0, 0, 0],
        \<lparr>bound = Some (tex 3 (js_int 1)), live = [],
         log = [(Bind (tex 3 (js_int 1)), Returned),
                (ReadPixels (js_int 1000) (js_int (- 5)) 1 1 RGBA UNSIGNED_BYTE [0, 0, 0, 0],
                 Filled [0, 0, 0, 0])]\<rparr>)
   \<and> width (tex 3 (js_int 1)) = 16 \<and> height (tex 3 (js_int 1)) = 16"
proof -
  let ?w1 = "\<lparr>bound = Some (tex 3 (js_int 1)), live = [],
         log = [(Bind (tex 3 (js_int 1)), Returned),
                (ReadPixels (js_int 1000) (js_int (- 5)) 1 1 RGBA UNSIGNED_BYTE [0, 0, 0, 0],
                 Threw (HostError 2))]\<rparr>"
  let ?w2 = "\<lparr>bound = Some (tex 3 (js_int 1)), live = [],
         log = [(Bind (tex 3 (js_int 1)), Returned),
                (ReadPixels (js_int 1000) (js_int (- 5)) 1 1 RGBA UNSIGNED_BYTE [0, 0, 0, 0],
                 Filled [0, 0, 0, 0])]\<rparr>"
  have run1: "readPixel (scripted_host (tex 7 (js_int 1)) None (Inl (HostError 2)))
      (RenderTexture (tex 3 (js_int 1))) (Some (js_int 1000)) (Some (js_int (- 5))) idle
      = (Inl (HostError 2), ?w1)"
    by (simp add: rp_defs comp_defs host_defs example_defs new_Uint8Array_4)
  have run2: "readPixel (scripted_host (tex 7 (js_int 1)) None (Inr [0, 0, 0, 0]))
      (RenderTexture (tex 3 (js_int 1))) (Some (js_int 1000)) (Some (js_int (- 5))) idle
      = (Inr [0, 0, 0, 0], ?w2)"
    by (simp add: rp_defs comp_defs host_defs example_defs new_Uint8Array_4)
  have size: "width (tex 3 (js_int 1)) = 16 \<and> height (tex 3 (js_int 1)) = 16"
    by (simp add: tex_def)
  from readPixel_propagates [OF run1] readPixel_propagates [OF run2] show ?thesis
    by (simp only: run1 run2 size simp_thms)
qed

text \<open>
  Claim C8, as the code has it. An omitted \<open>x\<close> or \<open>y\<close> is 0, for every target. On a
  target that is already a render texture of resolution 1 and with the default
  coordinates, no \<open>destroy\<close> is issued on any path; when \<open>bind\<close> returns, exactly one
  read is issued, \<open>readPixels(0, 0, 1, 1, RGBA, UNSIGNED_BYTE, buf)\<close> on the fresh
  4-byte buffer; when \<open>bind\<close> throws, no read is issued and the exception ends the
  call. The call returns exactly when no host call throws.
\<close>

theorem readPixel_defaults:
  assumes "baseTexture t = Some \<lparr>resolution = js_int 1\<rparr>"
    and "readPixel h (RenderTexture t) None None w = (r, w')"
  shows "(\<forall>tg a. readPixel h tg None a = readPixel h tg (Some (js_int 0)) a
              \<and> readPixel h tg a None = readPixel h tg a (Some (js_int 0)))
     \<and> count_calls is_Destroy w w' = 0
     \<and> (bind_outcome h t w = None \<longrightarrow>
          reads_issued w w' =
            [ReadPixels (js_int 0) (js_int 0) 1 1 RGBA UNSIGNED_BYTE (new_Uint8Array 4)]
          \<and> count_calls is_ReadPixels w w' = 1)
     \<and> (\<forall>e. bind_outcome h t w = Some e \<longrightarrow>
          r = Inl e \<and> reads_issued w w' = [] \<and> count_calls is_ReadPixels w w' = 0)
     \<and> ((\<exists>p. r = Inr p) \<longleftrightarrow> (\<forall>c e. (c, Threw e) \<notin> set (calls_since w w')))"
proof -
  have defaults: "\<forall>tg a. readPixel h tg None a = readPixel h tg (Some (js_int 0)) a
              \<and> readPixel h tg a None = readPixel h tg a (Some (js_int 0))"
    by (simp add: readPixel_def default_zero_def)
  have zero: "js_times (js_int 0) (js_int 1) = js_int 0"
    by (simp add: js_int_def round_to_double_exact)
  from readPixel_RenderTexture_paths [OF assms(2)] assms(1) zero
  have "count_calls is_Destroy w w' = 0
     \<and> (bind_outcome h t w = None \<longrightarrow>
          reads_issued w w' =
            [ReadPixels (js_int 0) (js_int 0) 1 1 RGBA UNSIGNED_BYTE (new_Uint8Array 4)]
          \<and> count_calls is_ReadPixels w w' = 1)
     \<and> (\<forall>e. bind_outcome h t w = Some e \<longrightarrow>
          r = Inl e \<and> reads_issued w w' = [] \<and> count_calls is_ReadPixels w w' = 0)
     \<and> ((\<exists>p. r = Inr p) \<longleftrightarrow> (\<forall>c e. (c, Threw e) \<notin> set (calls_since w w')))"
    by (elim disjE exE conjE)
      (auto simp: log_defs scaled_read_def to_number_def default_zero_def)
  with defaults show ?thesis by blast
qed

theorem readPixel_defaults_witness:
  "baseTexture (tex 3 (js_int 1)) = Some \<lparr>resolution = js_int 1\<rparr>
   \<and> readPixel (scripted_host (tex 7 (js_int 1)) None (Inr [10, 20, 30, 40]))
       (RenderTexture (tex 3 (js_int 1))) None None idle
     = (Inr [10, 20, 30, 40],
        \<lparr>bound = Some (tex 3 (js_int 1)), live = [],
         log = [(Bind (tex 3 (js_int 1)), Returned),
                (ReadPixels (js_int 0) (js_int 0) 1 1 RGBA UNSIGNED_BYTE [0, 0, 0, 0],
                 Filled [10, 20, 30, 40])]\<rparr>)
   \<and> bind_outcome (scripted_host (tex 7 (js_int 1)) None (Inr [10, 20, 30, 40]))
        (tex 3 (js_int 1)) idle = None
   \<and> reads_issued idle
        \<lparr>bound = Some (tex 3 (js_int 1)), live = [],
         log = [(Bind (tex 3 (js_int 1)), Returned),
                (ReadPixels (js_int 0) (js_int 0) 1 1 RGBA UNSIGNED_BYTE [0, 0, 0, 0],
                 Filled [10, 20, 30, 40])]\<rparr>
     = [ReadPixels (js_int 0) (js_int 0) 1 1 RGBA UNSIGNED_BYTE [0, 0, 0, 0]]
   \<and> count_calls is_Destroy idle
        \<lparr>bound = Some (tex 3 (js_int 1)), live = [],
         log = [(Bind (tex 3 (js_int 1)), Returned),
                (ReadPixels (js_int 0) (js_int 0) 1 1 RGBA UNSIGNED_BYTE [0, 0, 0, 0],
                 Filled [10, 20, 30, 40])]\<rparr> = 0"
proof -
  let ?h = "scripted_host (tex 7 (js_int 1)) None (Inr [10, 20, 30, 40])"
  let ?w' = "\<lparr>bound = Some (tex 3 (js_int 1)), live = [],
         log = [(Bind (tex 3 (js_int 1)), Returned),
                (ReadPixels (js_int 0) (js_int 0) 1 1 RGBA UNSIGNED_BYTE [0, 0, 0, 0],
                 Filled [10, 20, 30, 40])]\<rparr>"
  have res: "baseTexture (tex 3 (js_int 1)) = Some \<lparr>resolution = js_int 1\<rparr>"
    by (simp add: tex_def)
  have run: "readPixel ?h (RenderTexture (tex 3 (js_int 1))) None None idle
      = (Inr [10, 20, 30, 40], ?w')"
    by (simp add: rp_defs comp_defs host_defs example_defs new_Uint8Array_4)
  have bind: "bind_outcome ?h (tex 3 (js_int 1)) idle = None"
    by (simp add: scripted_host_def)
  have reads: "reads_issued idle ?w'
      = [ReadPixels (js_int 0) (js_int 0) 1 1 RGBA UNSIGNED_BYTE [0, 0, 0, 0]]"
    by (simp add: log_defs idle_def)
  have destroys: "count_calls is_Destroy idle ?w' = 0"
    by (simp add: log_defs idle_def)
  from readPixel_defaults [OF res run] res run bind reads destroys show ?thesis
    by blast
qed

text \<open>
  Claim C8, as the specification states it, fails: in its scenario, a call whose
  \<open>bind\<close> throws issues no \<open>readPixels\<close>.
\<close>

theorem readPixel_defaults_no_read_when_bind_throws:
  "baseTexture (tex 3 (js_int 1)) = Some \<lparr>resolution = js_int 1\<rparr>
   \<and> readPixel (scripted_host (tex 7 (js_int 1)) (Some (HostError 1)) (Inr [10, 20, 30, 40]))
       (RenderTexture (tex 3 (js_int 1))) None None idle
     = (Inl (HostError 1),
        \<lparr>bound = None, live = [],
         log = [(Bind (tex 3 (js_int 1)), Threw (HostError 1))]\<rparr>)
   \<and> count_calls is_ReadPixels idle
        (snd (readPixel (scripted_host (tex 7 (js_int 1)) (Some (HostError 1))
           (Inr [10, 20, 30, 40]))
           (RenderTexture (tex 3 (js_int 1))) None None idle)) = 0"
  by (simp add: rp_defs comp_defs host_defs example_defs new_Uint8Array_4 log_defs)

text \<open>When the texture generated for a call is left allocated.\<close>

lemma leak_Other:
  assumes "readPixel h (Other d) x y w = (r, w')"
  shows "leaked w w' = [] \<longleftrightarrow> (\<exists>p. r = Inr p) \<or> generated_textures (calls_since w w') = []"
  using assms
  by (auto simp: rp_defs comp_defs host_defs leaked_def calls_since_def
      split: sum.splits option.splits prod.splits if_splits)

text \<open>
  Claim C1, as the code has it. On a target that is not a render texture, the texture
  the call allocated is destroyed before the call ends exactly when the call returns
  (or when no texture was handed out at all). A call that returns has destroyed it with
  its last call, and the textures allocated are those allocated before. A call that
  ends with an exception after the texture was handed out leaves it allocated:
  \<open>readPixel\<close> has no handler that would release it.
\<close>

theorem readPixel_releases_on_return:
  assumes "readPixel h (Other d) x y w = (r, w')"
  shows "(leaked w w' = [] \<longleftrightarrow> (\<exists>p. r = Inr p) \<or> generated_textures (calls_since w w') = [])
     \<and> (\<forall>p. r = Inr p \<longrightarrow>
           live w' = live w
           \<and> (\<exists>t. generated_textures (calls_since w w') = [t]
                 \<and> last (calls_since w w') = (Destroy t True, Returned)))"
proof -
  have "\<forall>p. r = Inr p \<longrightarrow>
           live w' = live w
           \<and> (\<exists>t. generated_textures (calls_since w w') = [t]
                 \<and> last (calls_since w w') = (Destroy t True, Returned))"
  proof (intro allI impI)
    fix p assume "r = Inr p"
    with assms have "readPixel h (Other d) x y w = (Inr p, w')" by simp
    from readPixel_Other_returns [OF this] obtain t c1 c2 where
      l: "log w' = log w @ [(GenerateTexture (Other d), Gave (Some t)), (Bind t, Returned),
         (c1, Filled p), (Destroy t True, Returned)]"
      and w': "w' = w\<lparr>bound := Some t, log := log w'\<rparr>"
      by blast
    from w' have "live w' = live (w\<lparr>bound := Some t, log := log w'\<rparr>)" by simp
    then have "live w' = live w" by simp
    moreover from l have "generated_textures (calls_since w w') = [t]
        \<and> last (calls_since w w') = (Destroy t True, Returned)"
      by (simp add: calls_since_def)
    ultimately show "live w' = live w
           \<and> (\<exists>t. generated_textures (calls_since w w') = [t]
                 \<and> last (calls_since w w') = (Destroy t True, Returned))"
      by blast
  qed
  with leak_Other [OF assms] show ?thesis by blast
qed

theorem readPixel_releases_on_return_witness:
  "readPixel (scripted_host (tex 7 (js_int 2)) None (Inr [1, 2, 3, 4])) (Other 0)
       (Some (js_int 3)) (Some (js_int 4)) busy
     = (Inr [1, 2, 3, 4],
        \<lparr>bound = Some (tex 7 (js_int 2)), live = [tex 1 (js_int 1)],
         log = [(GenerateTexture (Other 0), Gave (Some (tex 7 (js_int 2)))), (Bind (tex 7 (js_int 2)), Returned),
                (ReadPixels (js_int 6) (js_int 8) 1 1 RGBA UNSIGNED_BYTE [0, 0, 0, 0],
                 Filled [1, 2, 3, 4]),
                (Destroy (tex 7 (js_int 2)) True, Returned)]\<rparr>)
   \<and> leaked busy
        (snd (readPixel (scripted_host (tex 7 (js_int 2)) None (Inr [1, 2, 3, 4])) (Other 0)
           (Some (js_int 3)) (Some (js_int 4)) busy)) = []
   \<and> live busy = [tex 1 (js_int 1)]"
proof -
  let ?h = "scripted_host (tex 7 (js_int 2)) None (Inr [1, 2, 3, 4])"
  let ?w' = "\<lparr>bound = Some (tex 7 (js_int 2)), live = [tex 1 (js_int 1)],
         log = [(GenerateTexture (Other 0), Gave (Some (tex 7 (js_int 2)))), (Bind (tex 7 (js_int 2)), Returned),
                (ReadPixels (js_int 6) (js_int 8) 1 1 RGBA UNSIGNED_BYTE [0, 0, 0, 0],
                 Filled [1, 2, 3, 4]),
                (Destroy (tex 7 (js_int 2)) True, Returned)]\<rparr>"
  have run: "readPixel ?h (Other 0) (Some (js_int 3)) (Some (js_int 4)) busy = (Inr [1, 2, 3, 4], ?w')"
    by (simp add: rp_defs comp_defs host_defs example_defs new_Uint8Array_4)
  from readPixel_releases_on_return [OF run] run show ?thesis
    by (simp add: busy_def)
qed

text \<open>
  Claim C1, as the specification states it, fails: when \<open>bind\<close> throws, or when
  \<open>readPixels\<close> throws, the call ends with that exception, no \<open>destroy\<close> has been
  issued, and the texture generated for the call stays allocated.
\<close>

theorem readPixel_leaks_on_failure:
  "readPixel (scripted_host (tex 7 (js_int 2)) (Some (HostError 1)) (Inr [1, 2, 3, 4])) (Other 0)
       (Some (js_int 3)) (Some (js_int 4)) idle
     = (Inl (HostError 1),
        \<lparr>bound = None, live = [tex 7 (js_int 2)],
         log = [(GenerateTexture (Other 0), Gave (Some (tex 7 (js_int 2)))),
                (Bind (tex 7 (js_int 2)), Threw (HostError 1))]\<rparr>)
   \<and> leaked idle
        (snd (readPixel (scripted_host (tex 7 (js_int 2)) (Some (HostError 1)) (Inr [1, 2, 3, 4]))
           (Other 0) (Some (js_int 3)) (Some (js_int 4)) idle)) = [tex 7 (js_int 2)]
   \<and> readPixel (scripted_host (tex 7 (js_int 2)) None (Inl (HostError 2))) (Other 0)
       (Some (js_int 3)) (Some (js_int 4)) idle
     = (Inl (HostError 2),
        \<lparr>bound = Some (tex 7 (js_int 2)), live = [tex 7 (js_int 2)],
         log = [(GenerateTexture (Other 0), Gave (Some (tex 7 (js_int 2)))), (Bind (tex 7 (js_int 2)), Returned),
                (ReadPixels (js_int 6) (js_int 8) 1 1 RGBA UNSIGNED_BYTE [0, 0, 0, 0],
                 Threw (HostError 2))]\<rparr>)
   \<and> leaked idle
        (snd (readPixel (scripted_host (tex 7 (js_int 2)) None (Inl (HostError 2))) (Other 0)
           (Some (js_int 3)) (Some (js_int 4)) idle)) = [tex 7 (js_int 2)]"
  by (simp add: rp_defs comp_defs host_defs example_defs new_Uint8Array_4 leaked_def
      calls_since_def)

end
